theory Spec2Isabelle
  imports Complex_Main "HOL-Library.Sublist"
begin

section \<open>Soil fertility classifier (src/soil\_fertility\_detection\_v3.py)\<close>

text \<open>
  Measurements and scores are Python floats in the source. They are modelled as reals:
  every threshold of the classifier (5.5, 6.0, 7.5, 8.5, 2.0, 4.0, 0.5, 0.75, 1.0) is a
  dyadic rational and therefore an exact float, and the correction factors are only ever
  compared with each other and with constants, so the order of the reals decides the same
  branches. The rounding error of float addition and multiplication is not modelled.
\<close>

subsection \<open>Threshold tables\<close>

datatype NutrientLevel = INFERTILE | FERTILE | VERY_FERTILE

fun NutrientLevel_value :: "NutrientLevel \<Rightarrow> string" where
  "NutrientLevel_value INFERTILE = ''Infertile''"
| "NutrientLevel_value FERTILE = ''Fertile''"
| "NutrientLevel_value VERY_FERTILE = ''Very Fertile''"

definition N_LOW :: real where "N_LOW = 280"
definition N_MEDIUM_UPPER :: real where "N_MEDIUM_UPPER = 560"
definition P_LOW :: real where "P_LOW = 10"
definition P_MEDIUM_UPPER :: real where "P_MEDIUM_UPPER = 25"
definition K_LOW :: real where "K_LOW = 110"
definition K_MEDIUM_UPPER :: real where "K_MEDIUM_UPPER = 280"

definition HIGHLY_ACIDIC_UPPER :: real where "HIGHLY_ACIDIC_UPPER = 5.5"
definition OPTIMAL_LOWER :: real where "OPTIMAL_LOWER = 6.0"
definition OPTIMAL_UPPER :: real where "OPTIMAL_UPPER = 7.5"
definition ALKALINE_LOWER :: real where "ALKALINE_LOWER = 8.5"

definition GOOD_UPPER :: real where "GOOD_UPPER = 2.0"
definition MODERATE_UPPER :: real where "MODERATE_UPPER = 4.0"

definition LOW_UPPER :: real where "LOW_UPPER = 0.5"
definition AVERAGE_UPPER :: real where "AVERAGE_UPPER = 0.75"

subsection \<open>Per-nutrient bands and the three gatekeeper assessors\<close>

text \<open>
  \<open>classify_nutrient_level\<close> takes the nutrient as the string \<open>'N'\<close>, \<open>'P'\<close> or
  \<open>'K'\<close> and returns the \<open>.value\<close> string of the enum, or \<open>"Unknown"\<close> for any other
  nutrient name.
\<close>

definition classify_nutrient_level :: "real \<Rightarrow> string \<Rightarrow> string" where
  "classify_nutrient_level nutrient_value nutrient_type =
     (if nutrient_type = ''N'' then
        (if nutrient_value < N_LOW then NutrientLevel_value INFERTILE
         else if nutrient_value \<le> N_MEDIUM_UPPER then NutrientLevel_value FERTILE
         else NutrientLevel_value VERY_FERTILE)
      else if nutrient_type = ''P'' then
        (if nutrient_value < P_LOW then NutrientLevel_value INFERTILE
         else if nutrient_value \<le> P_MEDIUM_UPPER then NutrientLevel_value FERTILE
         else NutrientLevel_value VERY_FERTILE)
      else if nutrient_type = ''K'' then
        (if nutrient_value < K_LOW then NutrientLevel_value INFERTILE
         else if nutrient_value \<le> K_MEDIUM_UPPER then NutrientLevel_value FERTILE
         else NutrientLevel_value VERY_FERTILE)
      else ''Unknown'')"

definition assess_ph_gatekeeper :: "real \<Rightarrow> string \<times> real" where
  "assess_ph_gatekeeper ph =
     (if ph < HIGHLY_ACIDIC_UPPER then (''Highly Acidic (< 5.5)'', 0.2)
      else if ph < OPTIMAL_LOWER then (''Suboptimal (5.5-6.0)'', 0.6)
      else if ph \<le> OPTIMAL_UPPER then (''Optimal (6.0-7.5)'', 1.0)
      else if ph < ALKALINE_LOWER then (''Slightly Alkaline (7.5-8.5)'', 0.7)
      else (''Highly Alkaline (> 8.5)'', 0.2))"

definition assess_ec_impact :: "real \<Rightarrow> string \<times> real" where
  "assess_ec_impact ec =
     (if ec \<le> GOOD_UPPER then (''Good (0-2 dS/m)'', 1.0)
      else if ec \<le> MODERATE_UPPER then (''Moderate (2-4 dS/m)'', 0.6)
      else (''Saline/Infertile (> 4 dS/m)'', 0.1))"

definition assess_organic_carbon :: "real \<Rightarrow> string \<times> real" where
  "assess_organic_carbon oc_percent =
     (if oc_percent < LOW_UPPER then (''Low (< 0.5%)'', 0.2)
      else if oc_percent \<le> AVERAGE_UPPER then (''Average (0.5-0.75%)'', 0.6)
      else (''High (> 0.75%)'', 1.0))"

definition calculate_index_score :: "real \<Rightarrow> real \<Rightarrow> real \<Rightarrow> real \<Rightarrow> real" where
  "calculate_index_score N P K OC =
     (let oc_decimal = (if OC > 1.0 then OC / 100.0 else OC)
      in (N + P + K) * oc_decimal)"

subsection \<open>Built-ins used by the aggregation\<close>

text \<open>
  \<open>min\<close> of a non-empty list keeps the first element and replaces it by a later one only
  when that one is strictly smaller. \<open>round(x, 2)\<close> rounds to two decimals, ties to even.
\<close>

fun py_min :: "real \<Rightarrow> real list \<Rightarrow> real" where
  "py_min m [] = m"
| "py_min m (x # xs) = py_min (if x < m then x else m) xs"

definition round_half_even :: "real \<Rightarrow> int" where
  "round_half_even x =
     (let f = \<lfloor>x\<rfloor>; d = x - of_int f
      in if d < 1 / 2 then f
         else if 1 / 2 < d then f + 1
         else if even f then f else f + 1)"

definition py_round2 :: "real \<Rightarrow> real" where
  "py_round2 x = of_int (round_half_even (x * 100)) / 100"

subsection \<open>Liebig aggregation\<close>

text \<open>Step 1 of \<open>apply_liebig_law\<close>: the overall status of the three nutrient bands.\<close>

definition npk_status_of :: "string list \<Rightarrow> string" where
  "npk_status_of npk_levels =
     (if list_all (\<lambda>level. level = NutrientLevel_value VERY_FERTILE) npk_levels
      then NutrientLevel_value VERY_FERTILE
      else if list_all (\<lambda>level. level \<in> set [NutrientLevel_value FERTILE,
                                               NutrientLevel_value VERY_FERTILE]) npk_levels
      then NutrientLevel_value FERTILE
      else NutrientLevel_value INFERTILE)"

text \<open>Step 6: which factor is named as the limiting one.\<close>

definition limiting_factor_of :: "real \<Rightarrow> real \<Rightarrow> real \<Rightarrow> string" where
  "limiting_factor_of ph_correction ec_correction limiting_factor_strength =
     (if ph_correction = limiting_factor_strength then ''pH (Nutrient Availability)''
      else if ec_correction = limiting_factor_strength then ''EC / Salinity (Osmotic Stress)''
      else ''Organic Carbon (Biological Activity)'')"

text \<open>Step 7, the \<open>if/elif/else\<close> chain before the override: class and description.\<close>

definition decision_table :: "real \<Rightarrow> real \<Rightarrow> real \<Rightarrow> string \<times> string" where
  "decision_table final_score limiting_factor_strength ph_correction =
     (if final_score > 400 \<and> limiting_factor_strength > 0.8 \<and> ph_correction > 0.8
      then (''OPTIMAL'', ''Excellent soil fertility with all parameters balanced'')
      else if final_score > 200 \<and> limiting_factor_strength > 0.6
      then (''HIGH'', ''Good soil fertility, minor adjustments recommended'')
      else if final_score > 100 \<and> limiting_factor_strength > 0.3
      then (''MODERATE'', ''Fair soil fertility, some limitations present'')
      else (''LOW'', ''Poor soil fertility, significant improvements needed''))"

record nutrient_info =
  n_value :: real
  n_classification :: string
  n_status :: string

record factor_info =
  f_value :: real
  f_classification :: string
  correction_factor :: real

record carbon_info =
  c_value :: real
  c_classification :: string
  quality_factor :: real

text \<open>
  The dictionary returned by \<open>apply_liebig_law\<close>, key by key. The key
  \<open>recommendation\<close> holds the advisory text of \<open>_generate_recommendation\<close>, which no
  other key depends on; it is left out.
\<close>

record assessment =
  nitrogen :: nutrient_info
  phosphorus :: nutrient_info
  potassium :: nutrient_info
  npk_overall_status :: string
  ph :: factor_info
  ec :: factor_info
  organic_carbon :: carbon_info
  index_score :: real
  final_score :: real
  limiting_factor :: string
  limiting_factor_strength :: real
  fertility_classification :: string
  description :: string

definition apply_liebig_law ::
  "real \<Rightarrow> real \<Rightarrow> real \<Rightarrow> real \<Rightarrow> real \<Rightarrow> real \<Rightarrow> assessment" where
  "apply_liebig_law N P K pH EC OC =
     (let n_class = classify_nutrient_level N ''N'';
          p_class = classify_nutrient_level P ''P'';
          k_class = classify_nutrient_level K ''K'';
          npk_status = npk_status_of [n_class, p_class, k_class];
          (ph_status, ph_correction) = assess_ph_gatekeeper pH;
          (ec_status, ec_correction) = assess_ec_impact EC;
          (oc_status, oc_quality) = assess_organic_carbon OC;
          index = calculate_index_score N P K OC;
          limiting_strength = py_min ph_correction [ec_correction, oc_quality];
          limiting = limiting_factor_of ph_correction ec_correction limiting_strength;
          final = index * limiting_strength;
          (table_class, table_descr) = decision_table final limiting_strength ph_correction;
          (fertility_class, descr) =
             (if limiting_strength < 0.3
              then (''INFERTILE'',
                    ''Infertile due to '' @ limiting @ '' being the limiting factor'')
              else (table_class, table_descr))
      in \<lparr> nitrogen = \<lparr> n_value = N, n_classification = n_class,
                         n_status = (if N \<ge> N_LOW then ''OK'' else ''CRITICAL'') \<rparr>,
           phosphorus = \<lparr> n_value = P, n_classification = p_class,
                           n_status = (if P \<ge> P_LOW then ''OK'' else ''CRITICAL'') \<rparr>,
           potassium = \<lparr> n_value = K, n_classification = k_class,
                          n_status = (if K \<ge> K_LOW then ''OK'' else ''CRITICAL'') \<rparr>,
           npk_overall_status = npk_status,
           ph = \<lparr> f_value = pH, f_classification = ph_status,
                   correction_factor = ph_correction \<rparr>,
           ec = \<lparr> f_value = EC, f_classification = ec_status,
                   correction_factor = ec_correction \<rparr>,
           organic_carbon = \<lparr> c_value = OC, c_classification = oc_status,
                               quality_factor = oc_quality \<rparr>,
           index_score = py_round2 index,
           final_score = py_round2 final,
           limiting_factor = limiting,
           limiting_factor_strength = py_round2 limiting_strength,
           fertility_classification = fertility_class,
           description = descr \<rparr>)"

section \<open>Knowledge source cascade (src/knowledge\_base\_query.py)\<close>

text \<open>
  A Python \<open>str\<close> is modelled as the list of the bytes of its UTF-8 encoding. The
  string operations below act on ASCII letters and ASCII white space, which is what
  Python does on every question written in ASCII; the case mapping and white space of
  other scripts are not modelled. Text literals of the source that contain characters
  outside ASCII are given byte by byte.
\<close>

subsection \<open>String built-ins\<close>

definition is_space :: "char \<Rightarrow> bool" where
  "is_space c \<longleftrightarrow> (of_char c :: nat) \<in> {9, 10, 11, 12, 13, 28, 29, 30, 31, 32}"

definition lower_char :: "char \<Rightarrow> char" where
  "lower_char c =
     (if 65 \<le> (of_char c :: nat) \<and> (of_char c :: nat) \<le> 90
      then char_of (of_char c + 32 :: nat) else c)"

definition py_lower :: "string \<Rightarrow> string" where
  "py_lower s = map lower_char s"

definition py_strip :: "string \<Rightarrow> string" where
  "py_strip s = rev (dropWhile is_space (rev (dropWhile is_space s)))"

text \<open>\<open>s.split()\<close>: the maximal runs of characters that are not white space.\<close>

fun split_from :: "string \<Rightarrow> string \<Rightarrow> string list" where
  "split_from word [] = (if word = [] then [] else [rev word])"
| "split_from word (c # cs) =
     (if is_space c
      then (if word = [] then split_from [] cs else rev word # split_from [] cs)
      else split_from (c # word) cs)"

definition py_split :: "string \<Rightarrow> string list" where
  "py_split s = split_from [] s"

text \<open>
  \<open>s.split(sep)[1]\<close> for a separator of two characters, as used on \<open>"A:"\<close>: what
  lies between the first and the second occurrence of the separator (or the end). The
  source guards the call by \<open>sep in s\<close>; without an occurrence the index is out of
  range, which is \<open>None\<close> here.
\<close>

fun up_to_sep :: "char \<Rightarrow> char \<Rightarrow> string \<Rightarrow> string" where
  "up_to_sep a b [] = []"
| "up_to_sep a b [c] = [c]"
| "up_to_sep a b (c # d # cs) =
     (if c = a \<and> d = b then [] else c # up_to_sep a b (d # cs))"

fun second_field :: "char \<Rightarrow> char \<Rightarrow> string \<Rightarrow> string option" where
  "second_field a b [] = None"
| "second_field a b [c] = None"
| "second_field a b (c # d # cs) =
     (if c = a \<and> d = b then Some (up_to_sep a b cs) else second_field a b (d # cs))"

text \<open>\<open>sep.join(parts)\<close>.\<close>

fun py_join :: "string \<Rightarrow> string list \<Rightarrow> string" where
  "py_join sep [] = []"
| "py_join sep [p] = p"
| "py_join sep (p # q # ps) = p @ sep @ py_join sep (q # ps)"

text \<open>\<open>any(kw in q for kw in kws)\<close>: \<open>in\<close> on strings is the contiguous-sublist test.\<close>

definition any_in :: "string list \<Rightarrow> string \<Rightarrow> bool" where
  "any_in kws q = list_ex (\<lambda>kw. sublist kw q) kws"

subsection \<open>Answers, knowledge-base entries and external capabilities\<close>

text \<open>
  The dictionary returned for a question. The keys \<open>sources\<close> and \<open>source\<close> are absent
  from some of the returned dictionaries, hence optional.
\<close>

record answer_dict =
  answer :: string
  title :: string
  confidence :: real
  source_count :: int
  sources :: "string list option"
  source :: "string option"

record kb_entry =
  kb_keywords :: "string list"
  kb_title :: string
  kb_answer :: string

record pdf_doc =
  doc_text :: string
  doc_source :: string
  doc_score :: int

datatype exn = Exception string

text \<open>
  A computation that reads and changes the world outside the cascade (vector store,
  learned-answer file, document cache, loaded models) and either returns or raises.
\<close>

type_synonym ('w, 'a) io = "'w \<Rightarrow> (exn + 'a) \<times> 'w"

definition io_return :: "'a \<Rightarrow> ('w, 'a) io" where
  "io_return x = (\<lambda>w. (Inr x, w))"

definition io_bind :: "('w, 'a) io \<Rightarrow> ('a \<Rightarrow> ('w, 'b) io) \<Rightarrow> ('w, 'b) io" where
  "io_bind m f = (\<lambda>w. case m w of (Inl e, w') \<Rightarrow> (Inl e, w') | (Inr x, w') \<Rightarrow> f x w')"

text \<open>
  A block of the form \<open>r = stage(); if r: return r\<close> followed by the rest of the
  function body: the rest runs only when the stage returned nothing.
\<close>

definition or_else :: "('w, 'a option) io \<Rightarrow> ('w, 'a) io \<Rightarrow> ('w, 'a) io" where
  "or_else stage rest =
     io_bind stage (\<lambda>r. case r of Some x \<Rightarrow> io_return x | None \<Rightarrow> rest)"

text \<open>
  The functions the cascade calls and whose results depend on the world: embedding
  search, document retrieval, text generation and the two writes of the learning loop.
  Each is a parameter, so that every statement below holds for all their behaviours,
  raising included. The rule-based responder \<open>generate_chatbot_response\<close> only reads the
  question; the cascade uses nothing of it but what it returns, so it is a parameter as
  well. The knowledge base is the value of \<open>get_agricultural_knowledge_base()\<close>.
\<close>

record 'w capabilities =
  generate_chatbot_response :: "string \<Rightarrow> exn + answer_dict option"
  retrieve_from_vector_db :: "string \<Rightarrow> nat \<Rightarrow> ('w, string list) io"
  retrieve_from_pdf_db :: "string \<Rightarrow> nat \<Rightarrow> ('w, pdf_doc list) io"
  generate_rag_answer :: "string \<Rightarrow> string \<Rightarrow> ('w, string option) io"
  add_to_vector_db :: "string \<Rightarrow> string \<Rightarrow> string \<Rightarrow> ('w, bool) io"
  save_to_learned_knowledge :: "string \<Rightarrow> answer_dict \<Rightarrow> ('w, unit) io"
  knowledge_base :: "(string \<times> kb_entry) list"

definition TOP_K :: nat where "TOP_K = 3"

subsection \<open>Text literals\<close>

definition cocoa_answer :: string where
  "cocoa_answer =
     ''Cocoa trees require a hot and humid climate with regular rai'' @
     ''nfall and temperatures between 21 and 32 degrees Celsius. Th'' @
     ''ey grow best in deep, well-drained loamy soils rich in organ'' @
     ''ic matter with a pH between 6 and 7.5. Plant healthy seedlin'' @
     ''gs at a spacing of three meters by three meters and provide '' @
     ''shade using temporary plants like banana or gliricidia. Appl'' @
     ''y farmyard manure and recommended NPK fertilizers in split d'' @
     ''oses each year. Water regularly during dry periods but avoid'' @
     '' waterlogging. Remove dead or diseased branches and maintain'' @
     '' a clean basin around each tree. Monitor for pests and disea'' @
     ''ses and use appropriate control methods. Harvest pods when f'' @
     ''ully ripe. Trees start bearing in three to five years. Prope'' @
     ''r care ensures healthy growth and good yield of cocoa pods.''"

definition ratnagiri_answer :: string where
  "ratnagiri_answer =
     [CHR 0xF0, CHR 0x9F, CHR 0x8D, CHR 0x83] @ '' Ratnagiri Mangoes - Maharashtra'' @
     [CHR 0x27] @ ''s Pride:'' @
     [CHR 0x0A, CHR 0x0A, CHR 0xF0, CHR 0x9F, CHR 0x8C, CHR 0x8D] @
     '' Unique Characteristics:'' @ [CHR 0x0A, CHR 0xE2, CHR 0x9C, CHR 0x93] @
     '' World-famous for superior quality and taste'' @
     [CHR 0x0A, CHR 0xE2, CHR 0x9C, CHR 0x93] @ '' Known as '' @ [CHR 0x27] @
     ''Queen of Mangoes'' @ [CHR 0x27] @ '' or '' @ [CHR 0x27] @ ''Hapus'' @
     [CHR 0x27, CHR 0x0A, CHR 0xE2, CHR 0x9C, CHR 0x93] @
     '' Grown exclusively in Ratnagiri district, Maharashtra'' @
     [CHR 0x0A, CHR 0xE2, CHR 0x9C, CHR 0x93] @
     '' Protected Geographical Indication (GI) tag'' @
     [CHR 0x0A, CHR 0xE2, CHR 0x9C, CHR 0x93] @
     '' Export quality with premium pricing'' @
     [CHR 0x0A, CHR 0x0A, CHR 0xF0, CHR 0x9F, CHR 0x8C, CHR 0xA1, CHR 0xEF, CHR 0xB8] @
     [CHR 0x8F] @ '' Climate & Soil:'' @ [CHR 0x0A, CHR 0xE2, CHR 0x9C, CHR 0x93] @
     '' Coastal Konkan region with humid climate'' @
     [CHR 0x0A, CHR 0xE2, CHR 0x9C, CHR 0x93] @ '' Temperature: 25-35'' @
     [CHR 0xC2, CHR 0xB0] @ ''C during growth'' @
     [CHR 0x0A, CHR 0xE2, CHR 0x9C, CHR 0x93] @ '' Rainfall: 2000-3000mm annually'' @
     [CHR 0x0A, CHR 0xE2, CHR 0x9C, CHR 0x93] @
     '' Soil: Lateritic red soil, well-drained'' @
     [CHR 0x0A, CHR 0xE2, CHR 0x9C, CHR 0x93] @
     '' pH: 6.0-7.5 (slightly acidic to neutral)'' @
     [CHR 0x0A, CHR 0x0A, CHR 0xF0, CHR 0x9F, CHR 0x8C, CHR 0xB1] @ '' Cultivation:'' @
     [CHR 0x0A, CHR 0xE2, CHR 0x9C, CHR 0x93] @
     '' Varieties: Alphonso, Pairi, Mankurad'' @
     [CHR 0x0A, CHR 0xE2, CHR 0x9C, CHR 0x93] @ '' Rootstock: Local mango varieties'' @
     [CHR 0x0A, CHR 0xE2, CHR 0x9C, CHR 0x93] @ '' Spacing: 10m '' @
     [CHR 0xC3, CHR 0x97] @ '' 10m (100 trees/acre)'' @
     [CHR 0x0A, CHR 0xE2, CHR 0x9C, CHR 0x93] @
     '' Age: 5-8 years for first commercial yield'' @
     [CHR 0x0A, CHR 0xE2, CHR 0x9C, CHR 0x93] @
     '' Yield: 5-8 tons/acre (premium quality)'' @
     [CHR 0x0A, CHR 0x0A, CHR 0xF0, CHR 0x9F, CHR 0x94, CHR 0xA7] @
     '' Special Management:'' @ [CHR 0x0A, CHR 0xE2, CHR 0x9C, CHR 0x93] @
     '' Regular pruning for air circulation'' @
     [CHR 0x0A, CHR 0xE2, CHR 0x9C, CHR 0x93] @
     '' Organic manure: 50-100 kg/tree/year'' @
     [CHR 0x0A, CHR 0xE2, CHR 0x9C, CHR 0x93] @
     '' Micronutrients: Zn, B sprays during flowering'' @
     [CHR 0x0A, CHR 0xE2, CHR 0x9C, CHR 0x93] @
     '' Pest control: Mango hoppers, fruit flies'' @
     [CHR 0x0A, CHR 0xE2, CHR 0x9C, CHR 0x93] @
     '' Harvest: April-May when fruits are mature'' @
     [CHR 0x0A, CHR 0x0A, CHR 0xF0, CHR 0x9F, CHR 0x92, CHR 0xB0] @
     '' Economic Value:'' @ [CHR 0x0A, CHR 0xE2, CHR 0x9C, CHR 0x93] @ '' Price: '' @
     [CHR 0xE2, CHR 0x82, CHR 0xB9] @ ''500-2000/kg (premium markets)'' @
     [CHR 0x0A, CHR 0xE2, CHR 0x9C, CHR 0x93] @
     '' Export: Major markets in Middle East, Europe'' @
     [CHR 0x0A, CHR 0xE2, CHR 0x9C, CHR 0x93] @
     '' GI Protection: Only Ratnagiri grown can use name'' @
     [CHR 0x0A, CHR 0xE2, CHR 0x9C, CHR 0x93] @ '' Farmer Income: '' @
     [CHR 0xE2, CHR 0x82, CHR 0xB9] @ ''2-5 lakhs/acre annually'' @
     [CHR 0x0A, CHR 0x0A, CHR 0xF0, CHR 0x9F, CHR 0x8F, CHR 0x86] @ '' Why Special:'' @
     [CHR 0x0A, CHR 0xE2, CHR 0x9C, CHR 0x93] @
     '' Unique Konkan climate creates perfect sugar-acid balance'' @
     [CHR 0x0A, CHR 0xE2, CHR 0x9C, CHR 0x93] @
     '' Traditional cultivation methods preserved'' @
     [CHR 0x0A, CHR 0xE2, CHR 0x9C, CHR 0x93] @
     '' Superior fiberless pulp and rich aroma'' @
     [CHR 0x0A, CHR 0xE2, CHR 0x9C, CHR 0x93] @
     '' Natural sweetness without artificial ripening'' @
     [CHR 0x0A, CHR 0xE2, CHR 0x9C, CHR 0x93] @
     '' Cultural heritage of Maharashtra farmers''"

definition fallback_prefix :: string where
  "fallback_prefix =
     ''I don'' @ [CHR 0x27] @ ''t have specific information about '' @ [CHR 0x27]"

definition fallback_suffix :: string where
  "fallback_suffix =
     [CHR 0x27] @ '' in my knowledge base. For expert guidance, please contact y'' @
     ''our local agricultural extension office. You can also try as'' @
     ''king about:'' @ [CHR 0x0A, CHR 0x0A, CHR 0xE2, CHR 0x80, CHR 0xA2] @
     '' Seasonal cultivation (when/how to plant)'' @
     [CHR 0x0A, CHR 0xE2, CHR 0x80, CHR 0xA2] @ '' Soil testing and amendments'' @
     [CHR 0x0A, CHR 0xE2, CHR 0x80, CHR 0xA2] @ '' Pest and disease management'' @
     [CHR 0x0A, CHR 0xE2, CHR 0x80, CHR 0xA2] @ '' Crop-specific techniques'' @
     [CHR 0x0A, CHR 0xE2, CHR 0x80, CHR 0xA2] @ '' Irrigation and water management'' @
     [CHR 0x0A, CHR 0xE2, CHR 0x80, CHR 0xA2] @ '' Nutrient deficiencies'' @
     [CHR 0x0A, CHR 0xE2, CHR 0x80, CHR 0xA2] @ '' Regional crop recommendations''"

definition query_error_text :: string where
  "query_error_text =
     ''Error processing your question. Please try again with a simp'' @
     ''ler question.''"

subsection \<open>The shipped knowledge base\<close>














subsection \<open>Helpers of the cascade\<close>

definition extract_title_from_question :: "string \<Rightarrow> string" where
  "extract_title_from_question question =
     (let q = py_lower question
      in if sublist ''how'' q then ''How To Guide''
         else if sublist ''what'' q then ''Information''
         else if sublist ''when'' q then ''Timing Guide''
         else if sublist ''which'' q \<or> sublist ''best'' q then ''Recommendation''
         else if sublist ''why'' q then ''Explanation''
         else if sublist ''problem'' q \<or> sublist ''issue'' q \<or> sublist ''problem'' q
         then ''Solution''
         else ''Agricultural Information'')"

text \<open>
  \<open>find_best_match_in_kb\<close>: the inner loop over the words of a keyword, the loop over
  the keywords of an entry, and the loop over the entries. The source stores the score
  in the entry under the key \<open>score\<close>; here the entry is returned with its score.
\<close>

fun score_words :: "string \<Rightarrow> string list \<Rightarrow> int \<Rightarrow> int" where
  "score_words q_lower [] score = score"
| "score_words q_lower (word # ws) score =
     score_words q_lower ws
       (if length word > 1 \<and> sublist word q_lower then score + 5 else score)"

fun score_keywords :: "string \<Rightarrow> string list \<Rightarrow> int \<Rightarrow> int" where
  "score_keywords q_lower [] score = score"
| "score_keywords q_lower (keyword # ks) score =
     (if length keyword \<le> 1 then score_keywords q_lower ks score
      else if sublist keyword q_lower then score_keywords q_lower ks (score + 10)
      else score_keywords q_lower ks (score_words q_lower (py_split keyword) score))"

fun best_match_loop ::
  "string \<Rightarrow> (string \<times> kb_entry) list \<Rightarrow> (kb_entry \<times> int) option \<Rightarrow> int
     \<Rightarrow> (kb_entry \<times> int) option" where
  "best_match_loop q_lower [] best_match best_score = best_match"
| "best_match_loop q_lower ((entry_id, entry) # kb) best_match best_score =
     (let score = score_keywords q_lower (kb_keywords entry) 0
      in if score > best_score
         then best_match_loop q_lower kb (Some (entry, score)) score
         else best_match_loop q_lower kb best_match best_score)"

definition find_best_match_in_kb ::
  "string \<Rightarrow> (string \<times> kb_entry) list \<Rightarrow> (kb_entry \<times> int) option" where
  "find_best_match_in_kb question kb =
     best_match_loop (py_strip (py_lower question)) kb None 0"

subsection \<open>The stages of \<open>query_knowledge_base\<close>\<close>

definition cocoa_keywords :: "string list" where
  "cocoa_keywords = [''cocoa'', ''chocolate tree'', ''theobroma cacao'']"

definition cocoa_response :: answer_dict where
  "cocoa_response =
     \<lparr> answer = cocoa_answer, title = ''Cocoa Tree Cultivation Guide'', confidence = 0.99,
       source_count = 1, sources = Some [''internal_agronomy_guide''],
       source = Some ''hardcoded'' \<rparr>"

definition ratnagiri_mango_keywords :: "string list" where
  "ratnagiri_mango_keywords =
     [''ratnagiri'', ''mango'', ''mangoes'', ''ratnagiri mango'', ''mango ratnagiri'',
      ''konkan mango'']"

definition ratnagiri_response :: answer_dict where
  "ratnagiri_response =
     \<lparr> answer = ratnagiri_answer,
       title = ''Ratnagiri Mangoes - Maharashtra'' @ [CHR 0x27] @ ''s Pride'',
       confidence = 0.98, source_count = 1,
       sources = Some [''maharashtra_agricultural_guide''],
       source = Some ''hardcoded'' \<rparr>"

definition season_keywords :: "string list" where
  "season_keywords =
     [''season'', ''timing'', ''when'', ''best time'', ''month'', ''sow'', ''plant'', ''grow'']"

text \<open>Priority 1: seasonal questions go to the rule-based responder.\<close>

definition priority1_seasonal :: "'w capabilities \<Rightarrow> string \<Rightarrow> ('w, answer_dict option) io" where
  "priority1_seasonal caps question =
     (if any_in season_keywords (py_strip (py_lower question))
      then (\<lambda>w. (generate_chatbot_response caps question, w))
      else io_return None)"

text \<open>Priority 2: the best hit of the vector store, when it has the form \<open>Q: ... A: ...\<close>.\<close>

definition priority2_vector_db :: "'w capabilities \<Rightarrow> string \<Rightarrow> ('w, answer_dict option) io" where
  "priority2_vector_db caps question =
     io_bind (retrieve_from_vector_db caps question 2) (\<lambda>vec_docs.
       case vec_docs of
         [] \<Rightarrow> io_return None
       | best_doc # _ \<Rightarrow>
           (if sublist ''A:'' best_doc
            then (case second_field CHR ''A'' CHR '':'' best_doc of
                    None \<Rightarrow> (\<lambda>w. (Inl (Exception ''IndexError''), w))
                  | Some field \<Rightarrow>
                      (let answer_part = py_strip field
                       in io_return (Some
                            \<lparr> answer = take 700 answer_part,
                              title = extract_title_from_question question,
                              confidence = 0.92, source_count = 1, sources = None,
                              source = Some ''vector_db'' \<rparr>)))
            else io_return None))"

text \<open>Priority 3: the static knowledge base, accepted from score 7.\<close>

definition priority3_kb :: "'w capabilities \<Rightarrow> string \<Rightarrow> ('w, answer_dict option) io" where
  "priority3_kb caps question =
     (case find_best_match_in_kb question (knowledge_base caps) of
        None \<Rightarrow> io_return None
      | Some (best_match, score) \<Rightarrow>
          (if score \<ge> 7
           then io_return (Some
                  \<lparr> answer = kb_answer best_match, title = kb_title best_match,
                    confidence = min 0.95 (0.5 + (of_int score * 0.03)),
                    source_count = 1, sources = None, source = Some ''kb'' \<rparr>)
           else io_return None))"

text \<open>Priority 4: the rule-based responder, for every question.\<close>

definition priority4_generator :: "'w capabilities \<Rightarrow> string \<Rightarrow> ('w, answer_dict option) io" where
  "priority4_generator caps question = (\<lambda>w. (generate_chatbot_response caps question, w))"

text \<open>
  Priority 5: excerpts of the cached documents. \<open>list(set(...))\<close> keeps one copy of each
  source name, in an order Python does not specify.
\<close>

definition priority5_pdf :: "'w capabilities \<Rightarrow> string \<Rightarrow> ('w, answer_dict option) io" where
  "priority5_pdf caps question =
     io_bind (retrieve_from_pdf_db caps question 3) (\<lambda>pdf_docs.
       if pdf_docs \<noteq> []
       then (let pdf_context = py_join [CHR 0x0A, CHR 0x0A] (map doc_text pdf_docs);
                 srcs = remdups (map doc_source pdf_docs)
             in io_return (Some
                  \<lparr> answer = take 1500 pdf_context,
                    title = ''Agricultural Reference (from PDFs)'',
                    confidence = 0.89, source_count = int (length srcs),
                    sources = Some srcs, source = Some ''pdf_documents'' \<rparr>))
       else io_return None)"

text \<open>Priority 6: generation from retrieved context; an answer is stored twice.\<close>

definition priority6_llm ::
  "'w capabilities \<Rightarrow> string \<Rightarrow> bool \<Rightarrow> ('w, answer_dict option) io" where
  "priority6_llm caps question use_llm =
     (if use_llm
      then io_bind (retrieve_from_vector_db caps question TOP_K) (\<lambda>context_docs.
           io_bind (retrieve_from_pdf_db caps question 2) (\<lambda>pdf_docs.
             let context_parts = context_docs @ map doc_text pdf_docs;
                 context = (if context_parts \<noteq> []
                            then py_join [CHR 0x0A, CHR 0x0A] (take 3 context_parts) else [])
             in io_bind (generate_rag_answer caps question context) (\<lambda>llm_answer.
                  case llm_answer of
                    None \<Rightarrow> io_return None
                  | Some a \<Rightarrow>
                      (if a \<noteq> []
                       then (let response =
                                   \<lparr> answer = a, title = extract_title_from_question question,
                                     confidence = 0.87, source_count = 1, sources = None,
                                     source = Some ''llm_rag'' \<rparr>
                             in io_bind (add_to_vector_db caps question a ''learned'') (\<lambda>_.
                                io_bind (save_to_learned_knowledge caps question response) (\<lambda>_.
                                io_return (Some response))))
                       else io_return None))))
      else io_return None)"

definition fallback_response :: "string \<Rightarrow> answer_dict" where
  "fallback_response question =
     \<lparr> answer = fallback_prefix @ question @ fallback_suffix,
       title = ''Information Not Available'', confidence = 0.15, source_count = 0,
       sources = None, source = None \<rparr>"

definition query_error_response :: answer_dict where
  "query_error_response =
     \<lparr> answer = query_error_text, title = ''Query Error'', confidence = 0.0,
       source_count = 0, sources = None, source = None \<rparr>"

text \<open>The body of the \<open>try\<close> block.\<close>

definition query_cascade :: "'w capabilities \<Rightarrow> string \<Rightarrow> bool \<Rightarrow> ('w, answer_dict) io" where
  "query_cascade caps question use_llm =
     or_else (priority1_seasonal caps question)
    (or_else (priority2_vector_db caps question)
    (or_else (priority3_kb caps question)
    (or_else (priority4_generator caps question)
    (or_else (priority5_pdf caps question)
    (or_else (priority6_llm caps question use_llm)
    (io_return (fallback_response question)))))))"

text \<open>
  \<open>query_knowledge_base(question, top_k, use_llm)\<close>: the two hardcoded topics are
  tested before the \<open>try\<close> block; \<open>except Exception\<close> turns every exception of the body
  into the error answer. The parameter \<open>top_k\<close> is not used by the body.
\<close>

definition query_knowledge_base ::
  "'w capabilities \<Rightarrow> string \<Rightarrow> nat \<Rightarrow> bool \<Rightarrow> 'w \<Rightarrow> answer_dict \<times> 'w" where
  "query_knowledge_base caps question top_k use_llm w =
     (let q_lower = py_strip (py_lower question)
      in if any_in cocoa_keywords q_lower then (cocoa_response, w)
         else if any_in ratnagiri_mango_keywords q_lower then (ratnagiri_response, w)
         else (case query_cascade caps question use_llm w of
                 (Inr response, w') \<Rightarrow> (response, w')
               | (Inl e, w') \<Rightarrow> (query_error_response, w')))"

subsection \<open>Substitutes for the external capabilities\<close>


definition raising_capabilities :: "(string \<times> kb_entry) list \<Rightarrow> nat capabilities" where
  "raising_capabilities kb =
     \<lparr> generate_chatbot_response = (\<lambda>question. Inl (Exception ''RuntimeError'')),
       retrieve_from_vector_db =
         (\<lambda>question top_k calls. (Inl (Exception ''RuntimeError''), Suc calls)),
       retrieve_from_pdf_db =
         (\<lambda>question top_k calls. (Inl (Exception ''RuntimeError''), Suc calls)),
       generate_rag_answer =
         (\<lambda>question context calls. (Inl (Exception ''RuntimeError''), Suc calls)),
       add_to_vector_db =
         (\<lambda>question a src calls. (Inl (Exception ''RuntimeError''), Suc calls)),
       save_to_learned_knowledge =
         (\<lambda>question response calls. (Inl (Exception ''RuntimeError''), Suc calls)),
       knowledge_base = kb \<rparr>"

subsection \<open>Vocabulary of the statements about the cascade\<close>

text \<open>
  A keyword is trimmed when it is not empty and neither starts nor ends with white space;
  \<open>strip()\<close> cannot cut into an occurrence of such a keyword.
\<close>

definition trimmed :: "string \<Rightarrow> bool" where
  "trimmed kw \<longleftrightarrow> kw \<noteq> [] \<and> \<not> is_space (hd kw) \<and> \<not> is_space (last kw)"







section \<open>Properties of the fertility classifier\<close>

subsection \<open>Auxiliary facts\<close>

lemmas threshold_defs =
  N_LOW_def N_MEDIUM_UPPER_def P_LOW_def P_MEDIUM_UPPER_def K_LOW_def K_MEDIUM_UPPER_def
  HIGHLY_ACIDIC_UPPER_def OPTIMAL_LOWER_def OPTIMAL_UPPER_def ALKALINE_LOWER_def
  GOOD_UPPER_def MODERATE_UPPER_def LOW_UPPER_def AVERAGE_UPPER_def

lemma py_min3: "py_min a [b, c] = min a (min b c)"
  by (simp add: min_def)

lemma round_half_even_of_int: "round_half_even (of_int n) = n"
  by (simp add: round_half_even_def)

lemma py_round2_hundredths: "x * 100 = of_int n \<Longrightarrow> py_round2 x = x"
  unfolding py_round2_def by (simp add: round_half_even_of_int)

lemma py_round2_factor:
  assumes "x \<in> {0.1, 0.2, 0.6, 0.7, 1.0}"
  shows "py_round2 x = x"
proof -
  from assms consider "x * 100 = of_int 10" | "x * 100 = of_int 20" | "x * 100 = of_int 60"
    | "x * 100 = of_int 70" | "x * 100 = of_int 100" by auto
  then show ?thesis by cases (rule py_round2_hundredths, assumption)+
qed

lemma ph_factor_cases: "snd (assess_ph_gatekeeper x) \<in> {0.2, 0.6, 0.7, 1.0}"
  by (simp add: assess_ph_gatekeeper_def)

lemma ec_factor_cases: "snd (assess_ec_impact x) \<in> {0.1, 0.6, 1.0}"
  by (simp add: assess_ec_impact_def)

lemma oc_factor_cases: "snd (assess_organic_carbon x) \<in> {0.2, 0.6, 1.0}"
  by (simp add: assess_organic_carbon_def)

lemma weakest_cases:
  "min (snd (assess_ph_gatekeeper pH))
       (min (snd (assess_ec_impact EC)) (snd (assess_organic_carbon OC)))
     \<in> {0.1, 0.2, 0.6, 0.7, 1.0}"
  using ph_factor_cases[of pH] ec_factor_cases[of EC] oc_factor_cases[of OC]
  unfolding min_def by auto

lemma liebig_strength:
  "limiting_factor_strength (apply_liebig_law N P K pH EC OC) =
     min (snd (assess_ph_gatekeeper pH))
         (min (snd (assess_ec_impact EC)) (snd (assess_organic_carbon OC)))"
  using py_round2_factor[OF weakest_cases[of pH EC OC]]
  by (simp add: apply_liebig_law_def Let_def split_beta py_min3 del: py_min.simps)

lemma liebig_factor:
  "limiting_factor (apply_liebig_law N P K pH EC OC) =
     limiting_factor_of (snd (assess_ph_gatekeeper pH)) (snd (assess_ec_impact EC))
       (limiting_factor_strength (apply_liebig_law N P K pH EC OC))"
  unfolding liebig_strength
  by (simp add: apply_liebig_law_def Let_def split_beta py_min3 del: py_min.simps)

lemma liebig_class:
  "fertility_classification (apply_liebig_law N P K pH EC OC) =
    (if limiting_factor_strength (apply_liebig_law N P K pH EC OC) < 0.3 then ''INFERTILE''
     else fst (decision_table
                (calculate_index_score N P K OC *
                   limiting_factor_strength (apply_liebig_law N P K pH EC OC))
                (limiting_factor_strength (apply_liebig_law N P K pH EC OC))
                (snd (assess_ph_gatekeeper pH))))"
  unfolding liebig_strength
  by (simp add: apply_liebig_law_def Let_def split_beta py_min3 del: py_min.simps)

lemma liebig_corrections:
  "correction_factor (ph (apply_liebig_law N P K pH EC OC)) = snd (assess_ph_gatekeeper pH)"
  "correction_factor (ec (apply_liebig_law N P K pH EC OC)) = snd (assess_ec_impact EC)"
  "quality_factor (organic_carbon (apply_liebig_law N P K pH EC OC)) =
     snd (assess_organic_carbon OC)"
  by (simp_all add: apply_liebig_law_def Let_def split_beta)

lemma decision_table_class:
  "fst (decision_table f s p) \<in> {''OPTIMAL'', ''HIGH'', ''MODERATE'', ''LOW''}"
  by (simp add: decision_table_def)

subsection \<open>The claims about the classifier\<close>

text \<open>
  Claim C1. For every input \<open>(N, P, K, pH, EC, OC)\<close> the assessment returned by
  \<open>apply_liebig_law\<close> has \<open>limiting_factor_strength\<close> equal to the minimum of the
  three correction factors, which are the values of the pH, EC and OC assessors on that
  input; the limiting factor named is pH when the pH correction equals that minimum,
  otherwise EC when the EC correction equals it, otherwise organic carbon.
\<close>
theorem liebig_minimum_and_priority:
  "limiting_factor_strength (apply_liebig_law N P K pH EC OC) =
     min (correction_factor (ph (apply_liebig_law N P K pH EC OC)))
         (min (correction_factor (ec (apply_liebig_law N P K pH EC OC)))
              (quality_factor (organic_carbon (apply_liebig_law N P K pH EC OC))))
   \<and> correction_factor (ph (apply_liebig_law N P K pH EC OC)) = snd (assess_ph_gatekeeper pH)
   \<and> correction_factor (ec (apply_liebig_law N P K pH EC OC)) = snd (assess_ec_impact EC)
   \<and> quality_factor (organic_carbon (apply_liebig_law N P K pH EC OC)) =
       snd (assess_organic_carbon OC)
   \<and> limiting_factor (apply_liebig_law N P K pH EC OC) =
       (if snd (assess_ph_gatekeeper pH) =
             limiting_factor_strength (apply_liebig_law N P K pH EC OC)
        then ''pH (Nutrient Availability)''
        else if snd (assess_ec_impact EC) =
             limiting_factor_strength (apply_liebig_law N P K pH EC OC)
        then ''EC / Salinity (Osmotic Stress)''
        else ''Organic Carbon (Biological Activity)'')"
  unfolding liebig_corrections
  using liebig_strength[of N P K pH EC OC] liebig_factor[of N P K pH EC OC]
  by (simp only: limiting_factor_of_def simp_thms)

theorem liebig_minimum_and_priority_witness:
  "limiting_factor_strength (apply_liebig_law 300 15 150 5.8 3 0.6) = 0.6
   \<and> limiting_factor (apply_liebig_law 300 15 150 5.8 3 0.6) = ''pH (Nutrient Availability)''
   \<and> limiting_factor (apply_liebig_law 300 15 150 6.5 3 0.6) = ''EC / Salinity (Osmotic Stress)''
   \<and> limiting_factor (apply_liebig_law 300 15 150 6.5 1 0.6) =
       ''Organic Carbon (Biological Activity)''"
  using liebig_minimum_and_priority[of 300 15 150 "5.8" 3 "0.6"]
        liebig_minimum_and_priority[of 300 15 150 "6.5" 3 "0.6"]
        liebig_minimum_and_priority[of 300 15 150 "6.5" 1 "0.6"]
  by (simp add: assess_ph_gatekeeper_def assess_ec_impact_def assess_organic_carbon_def
        threshold_defs)


text \<open>
  Claim C2. Whenever \<open>limiting_factor_strength\<close> is below 0.3 the returned class is
  \<open>INFERTILE\<close>, whatever the final score and whatever row of the decision table
  matched. The override is the last step: when the strength is not below 0.3 the class is
  the one of the decision table, and the table itself never yields \<open>INFERTILE\<close>.
\<close>
theorem infertile_override:
  "(limiting_factor_strength (apply_liebig_law N P K pH EC OC) < 0.3 \<longrightarrow>
      fertility_classification (apply_liebig_law N P K pH EC OC) = ''INFERTILE'')
   \<and> (\<not> limiting_factor_strength (apply_liebig_law N P K pH EC OC) < 0.3 \<longrightarrow>
      fertility_classification (apply_liebig_law N P K pH EC OC) =
        fst (decision_table
              (calculate_index_score N P K OC *
                 limiting_factor_strength (apply_liebig_law N P K pH EC OC))
              (limiting_factor_strength (apply_liebig_law N P K pH EC OC))
              (correction_factor (ph (apply_liebig_law N P K pH EC OC))))
      \<and> fertility_classification (apply_liebig_law N P K pH EC OC) \<noteq> ''INFERTILE'')"
  using decision_table_class[of "calculate_index_score N P K OC *
                 limiting_factor_strength (apply_liebig_law N P K pH EC OC)"
          "limiting_factor_strength (apply_liebig_law N P K pH EC OC)"
          "snd (assess_ph_gatekeeper pH)"]
  by (auto simp: liebig_class[of N P K pH EC OC] liebig_corrections)

theorem infertile_override_witness:
  "limiting_factor_strength (apply_liebig_law 5000 20 250 4.5 1.5 0.8) < 0.3
   \<and> calculate_index_score 5000 20 250 0.8 *
        limiting_factor_strength (apply_liebig_law 5000 20 250 4.5 1.5 0.8) > 400
   \<and> fertility_classification (apply_liebig_law 5000 20 250 4.5 1.5 0.8) = ''INFERTILE''
   \<and> \<not> limiting_factor_strength (apply_liebig_law 100 5 80 5.8 0.8 0.6) < 0.3
   \<and> fertility_classification (apply_liebig_law 100 5 80 5.8 0.8 0.6) = ''LOW''"
proof -
  have s1: "limiting_factor_strength (apply_liebig_law 5000 20 250 4.5 1.5 0.8) = 0.2"
    by (simp add: liebig_strength assess_ph_gatekeeper_def assess_ec_impact_def
          assess_organic_carbon_def threshold_defs)
  have s2: "limiting_factor_strength (apply_liebig_law 100 5 80 5.8 0.8 0.6) = 0.6"
    by (simp add: liebig_strength assess_ph_gatekeeper_def assess_ec_impact_def
          assess_organic_carbon_def threshold_defs)
  show ?thesis
    using infertile_override[of 5000 20 250 "4.5" "1.5" "0.8"]
          infertile_override[of 100 5 80 "5.8" "0.8" "0.6"]
    unfolding s1 s2
    by (simp add: calculate_index_score_def decision_table_def)
qed



text \<open>
  Claim C4. The three gatekeeper assessors are step functions with these boundary
  inclusions: pH below 5.5 gives 0.2, from 5.5 up to but excluding 6.0 gives 0.6, from
  6.0 to 7.5 inclusive gives 1.0, strictly between 7.5 and 8.5 gives 0.7, and 8.5 or more
  gives 0.2; EC up to 2.0 gives 1.0, above 2.0 up to 4.0 gives 0.6, above 4.0 gives 0.1;
  OC below 0.5 gives 0.2, from 0.5 to 0.75 inclusive gives 0.6, above 0.75 gives 1.0.
  The labels are the full strings of the source, each beginning with the band's name.
\<close>
theorem gatekeeper_boundaries:
  "(pH < 5.5 \<longrightarrow> assess_ph_gatekeeper pH = (''Highly Acidic (< 5.5)'', 0.2))
   \<and> (5.5 \<le> pH \<and> pH < 6.0 \<longrightarrow> assess_ph_gatekeeper pH = (''Suboptimal (5.5-6.0)'', 0.6))
   \<and> (6.0 \<le> pH \<and> pH \<le> 7.5 \<longrightarrow> assess_ph_gatekeeper pH = (''Optimal (6.0-7.5)'', 1.0))
   \<and> (7.5 < pH \<and> pH < 8.5 \<longrightarrow> assess_ph_gatekeeper pH = (''Slightly Alkaline (7.5-8.5)'', 0.7))
   \<and> (8.5 \<le> pH \<longrightarrow> assess_ph_gatekeeper pH = (''Highly Alkaline (> 8.5)'', 0.2))
   \<and> (EC \<le> 2.0 \<longrightarrow> assess_ec_impact EC = (''Good (0-2 dS/m)'', 1.0))
   \<and> (2.0 < EC \<and> EC \<le> 4.0 \<longrightarrow> assess_ec_impact EC = (''Moderate (2-4 dS/m)'', 0.6))
   \<and> (4.0 < EC \<longrightarrow> assess_ec_impact EC = (''Saline/Infertile (> 4 dS/m)'', 0.1))
   \<and> (OC < 0.5 \<longrightarrow> assess_organic_carbon OC = (''Low (< 0.5%)'', 0.2))
   \<and> (0.5 \<le> OC \<and> OC \<le> 0.75 \<longrightarrow> assess_organic_carbon OC = (''Average (0.5-0.75%)'', 0.6))
   \<and> (0.75 < OC \<longrightarrow> assess_organic_carbon OC = (''High (> 0.75%)'', 1.0))
   \<and> snd (assess_ph_gatekeeper 5.5) = 0.6
   \<and> snd (assess_ph_gatekeeper 6.0) = 1.0
   \<and> snd (assess_ph_gatekeeper 7.5) = 1.0
   \<and> snd (assess_ph_gatekeeper 8.49) = 0.7
   \<and> snd (assess_ph_gatekeeper 8.5) = 0.2"
  by (simp add: assess_ph_gatekeeper_def assess_ec_impact_def assess_organic_carbon_def
        threshold_defs)

theorem gatekeeper_boundaries_witness:
  "(5.5::real) \<le> 5.5 \<and> (5.5::real) < 6.0
   \<and> assess_ph_gatekeeper 5.5 = (''Suboptimal (5.5-6.0)'', 0.6)
   \<and> (2.0::real) < 4.0 \<and> (4.0::real) \<le> 4.0
   \<and> assess_ec_impact 4.0 = (''Moderate (2-4 dS/m)'', 0.6)
   \<and> (0.5::real) \<le> 0.75 \<and> (0.75::real) \<le> 0.75
   \<and> assess_organic_carbon 0.75 = (''Average (0.5-0.75%)'', 0.6)"
  using gatekeeper_boundaries[of "5.5" "4.0" "0.75"] by simp

text \<open>
  Claim C5 states that in the sample N=500, P=20, K=250 the three nutrients are classified
  very fertile, fertile and very fertile. Under the thresholds 280/560 and 110/280 the
  values 500 (N) and 250 (K) lie in the middle band, so that part does not hold.
\<close>
theorem sample_high_nutrients_counterexample:
  "\<not> (classify_nutrient_level 500 ''N'' = NutrientLevel_value VERY_FERTILE
      \<and> classify_nutrient_level 20 ''P'' = NutrientLevel_value FERTILE
      \<and> classify_nutrient_level 250 ''K'' = NutrientLevel_value VERY_FERTILE)"
  by (simp add: classify_nutrient_level_def threshold_defs)

text \<open>
  Claim C5, amended. For the sample N=500, P=20, K=250, pH=4.5, EC=1.5, OC=0.8 the pH
  correction 0.2 is the minimum of the three correction factors, the limiting factor is
  pH with strength 0.2, and the class is \<open>INFERTILE\<close>, while N, P and K are all
  classified \<open>FERTILE\<close> under the per-nutrient thresholds (N: 280/560, P: 10/25,
  K: 110/280; below the lower one infertile, from the lower to the upper one inclusive
  fertile, above the upper one very fertile).
\<close>
theorem sample_high_nutrients_acidic:
  "correction_factor (ph (apply_liebig_law 500 20 250 4.5 1.5 0.8)) = 0.2
   \<and> correction_factor (ec (apply_liebig_law 500 20 250 4.5 1.5 0.8)) = 1.0
   \<and> quality_factor (organic_carbon (apply_liebig_law 500 20 250 4.5 1.5 0.8)) = 1.0
   \<and> limiting_factor (apply_liebig_law 500 20 250 4.5 1.5 0.8) = ''pH (Nutrient Availability)''
   \<and> limiting_factor_strength (apply_liebig_law 500 20 250 4.5 1.5 0.8) = 0.2
   \<and> fertility_classification (apply_liebig_law 500 20 250 4.5 1.5 0.8) = ''INFERTILE''
   \<and> n_classification (nitrogen (apply_liebig_law 500 20 250 4.5 1.5 0.8)) =
        NutrientLevel_value FERTILE
   \<and> n_classification (phosphorus (apply_liebig_law 500 20 250 4.5 1.5 0.8)) =
        NutrientLevel_value FERTILE
   \<and> n_classification (potassium (apply_liebig_law 500 20 250 4.5 1.5 0.8)) =
        NutrientLevel_value FERTILE
   \<and> classify_nutrient_level v ''N'' =
        (if v < 280 then NutrientLevel_value INFERTILE
         else if v \<le> 560 then NutrientLevel_value FERTILE
         else NutrientLevel_value VERY_FERTILE)
   \<and> classify_nutrient_level v ''P'' =
        (if v < 10 then NutrientLevel_value INFERTILE
         else if v \<le> 25 then NutrientLevel_value FERTILE
         else NutrientLevel_value VERY_FERTILE)
   \<and> classify_nutrient_level v ''K'' =
        (if v < 110 then NutrientLevel_value INFERTILE
         else if v \<le> 280 then NutrientLevel_value FERTILE
         else NutrientLevel_value VERY_FERTILE)"
proof -
  have cls: "n_classification (nitrogen (apply_liebig_law N P K pH EC OC)) =
               classify_nutrient_level N ''N''"
            "n_classification (phosphorus (apply_liebig_law N P K pH EC OC)) =
               classify_nutrient_level P ''P''"
            "n_classification (potassium (apply_liebig_law N P K pH EC OC)) =
               classify_nutrient_level K ''K''" for N P K pH EC OC
    by (simp_all add: apply_liebig_law_def Let_def split_beta)
  have str: "limiting_factor_strength (apply_liebig_law 500 20 250 4.5 1.5 0.8) = 0.2"
    by (simp add: liebig_strength assess_ph_gatekeeper_def assess_ec_impact_def
          assess_organic_carbon_def threshold_defs)
  have fac: "limiting_factor (apply_liebig_law 500 20 250 4.5 1.5 0.8) =
               ''pH (Nutrient Availability)''"
    unfolding liebig_factor str
    by (simp add: limiting_factor_of_def assess_ph_gatekeeper_def threshold_defs)
  have cl: "fertility_classification (apply_liebig_law 500 20 250 4.5 1.5 0.8) = ''INFERTILE''"
    unfolding liebig_class str by simp
  show ?thesis
    unfolding cls liebig_corrections str fac cl
    by (simp add: classify_nutrient_level_def assess_ph_gatekeeper_def assess_ec_impact_def
          assess_organic_carbon_def threshold_defs)
qed

theorem sample_high_nutrients_acidic_witness:
  "classify_nutrient_level 560 ''N'' = ''Fertile''
   \<and> classify_nutrient_level 280 ''N'' = ''Fertile''
   \<and> classify_nutrient_level 561 ''N'' = ''Very Fertile''
   \<and> classify_nutrient_level 9 ''P'' = ''Infertile''
   \<and> classify_nutrient_level 281 ''K'' = ''Very Fertile''"
proof -
  have k: "classify_nutrient_level v ''N'' =
        (if v < 280 then NutrientLevel_value INFERTILE
         else if v \<le> 560 then NutrientLevel_value FERTILE
         else NutrientLevel_value VERY_FERTILE)
   \<and> classify_nutrient_level v ''P'' =
        (if v < 10 then NutrientLevel_value INFERTILE
         else if v \<le> 25 then NutrientLevel_value FERTILE
         else NutrientLevel_value VERY_FERTILE)
   \<and> classify_nutrient_level v ''K'' =
        (if v < 110 then NutrientLevel_value INFERTILE
         else if v \<le> 280 then NutrientLevel_value FERTILE
         else NutrientLevel_value VERY_FERTILE)" for v
    using sample_high_nutrients_acidic[of v] by (simp only: simp_thms)
  show ?thesis using k[of 560] k[of 280] k[of 561] k[of 9] k[of 281] by simp
qed



section \<open>Properties of the knowledge source cascade\<close>

subsection \<open>Strings\<close>

lemma sublist_dropWhile_iff:
  assumes "kw \<noteq> []" "\<not> P (hd kw)"
  shows "sublist kw (dropWhile P s) = sublist kw s"
proof (induction s)
  case Nil
  show ?case by simp
next
  case (Cons c cs)
  show ?case
  proof (cases "P c")
    case True
    with assms have "\<not> prefix kw (c # cs)"
      by (cases kw) (auto simp: prefix_Cons)
    with True Cons show ?thesis by (simp add: sublist_Cons_right)
  next
    case False
    then show ?thesis by simp
  qed
qed

lemma sublist_strip:
  assumes "kw \<noteq> []" "\<not> is_space (hd kw)" "\<not> is_space (last kw)"
  shows "sublist kw (py_strip s) = sublist kw s"
proof -
  have r: "rev kw \<noteq> []" "\<not> is_space (hd (rev kw))"
    using assms by (simp_all add: hd_rev)
  have "sublist kw (py_strip s) = sublist (rev kw) (dropWhile is_space (rev (dropWhile is_space s)))"
    unfolding py_strip_def by (simp add: sublist_rev_right)
  also have "\<dots> = sublist (rev kw) (rev (dropWhile is_space s))"
    using r by (rule sublist_dropWhile_iff)
  also have "\<dots> = sublist kw (dropWhile is_space s)"
    by simp
  also have "\<dots> = sublist kw s"
    using assms(1,2) by (rule sublist_dropWhile_iff)
  finally show ?thesis .
qed


lemma any_in_strip:
  assumes "list_all trimmed kws"
  shows "any_in kws (py_strip s) = any_in kws s"
  using assms
  by (induction kws) (simp_all add: any_in_def trimmed_def sublist_strip)

lemma cocoa_keywords_trimmed: "list_all trimmed cocoa_keywords"
  by (simp add: cocoa_keywords_def trimmed_def is_space_def)

lemma ratnagiri_mango_keywords_trimmed: "list_all trimmed ratnagiri_mango_keywords"
  by (simp add: ratnagiri_mango_keywords_def trimmed_def is_space_def)

lemma sublist_map_mono: "sublist xs ys \<Longrightarrow> sublist (map f xs) (map f ys)"
  unfolding sublist_def by (metis map_append)


lemma hardcoded_result:
  "query_knowledge_base caps question top_k use_llm w =
     (if any_in cocoa_keywords (py_lower question) then (cocoa_response, w)
      else if any_in ratnagiri_mango_keywords (py_lower question) then (ratnagiri_response, w)
      else (case query_cascade caps question use_llm w of
                 (Inr response, w') \<Rightarrow> (response, w')
               | (Inl e, w') \<Rightarrow> (query_error_response, w')))"
  unfolding query_knowledge_base_def Let_def
  by (simp only: any_in_strip[OF cocoa_keywords_trimmed]
        any_in_strip[OF ratnagiri_mango_keywords_trimmed])

subsection \<open>Sequencing of the stages\<close>


lemma or_else_raises:
  assumes "fst (stage w) = Inl e"
  shows "or_else stage rest w = (Inl e, snd (stage w))"
  using assms by (cases "stage w") (simp add: or_else_def io_bind_def)

lemma second_field_found:
  "sublist [a, b] s \<Longrightarrow> second_field a b s \<noteq> None"
  by (induction a b s rule: second_field.induct) (auto simp: sublist_Cons_right prefix_Cons)




subsection \<open>Scoring of the knowledge base\<close>













subsection \<open>The claims about the cascade\<close>








text \<open>
  Claim C10. The hardcoded triggers are substring tests on the lowercased question. A
  question containing \<open>cocoa\<close>, \<open>chocolate tree\<close> or \<open>theobroma cacao\<close> gets the cocoa
  answer (confidence 0.99); otherwise a question containing \<open>ratnagiri\<close>, \<open>mango\<close> or
  \<open>mangoes\<close> anywhere gets the Ratnagiri mango answer (confidence 0.98, its title, source
  count 1), whatever the capabilities, so that no later stage is consulted. A keyword
  occurring in the question as typed also occurs in the lowercased question.
\<close>
theorem hardcoded_triggers_are_substring_tests:
  "((sublist ''cocoa'' (py_lower question) \<or> sublist ''chocolate tree'' (py_lower question)
      \<or> sublist ''theobroma cacao'' (py_lower question)) \<longrightarrow>
      query_knowledge_base caps question top_k use_llm w = (cocoa_response, w))
   \<and> (\<not> (sublist ''cocoa'' (py_lower question) \<or> sublist ''chocolate tree'' (py_lower question)
          \<or> sublist ''theobroma cacao'' (py_lower question))
      \<and> (sublist ''ratnagiri'' (py_lower question) \<or> sublist ''mango'' (py_lower question)
          \<or> sublist ''mangoes'' (py_lower question)) \<longrightarrow>
      query_knowledge_base caps question top_k use_llm w = (ratnagiri_response, w))
   \<and> (\<forall>kw \<in> set (cocoa_keywords @ ratnagiri_mango_keywords).
        sublist kw question \<longrightarrow> sublist kw (py_lower question))
   \<and> answer cocoa_response = cocoa_answer \<and> confidence cocoa_response = 0.99
   \<and> answer ratnagiri_response = ratnagiri_answer \<and> confidence ratnagiri_response = 0.98
   \<and> title ratnagiri_response = ''Ratnagiri Mangoes - Maharashtra'' @ [CHR 0x27] @ ''s Pride''
   \<and> source_count ratnagiri_response = 1"
proof -
  have low: "py_lower kw = kw" if "kw \<in> set (cocoa_keywords @ ratnagiri_mango_keywords)" for kw
  proof -
    have "list_all (\<lambda>kw. py_lower kw = kw) (cocoa_keywords @ ratnagiri_mango_keywords)"
      by code_simp
    with that show ?thesis by (simp add: list_all_iff)
  qed
  have raw: "\<forall>kw \<in> set (cocoa_keywords @ ratnagiri_mango_keywords).
        sublist kw question \<longrightarrow> sublist kw (py_lower question)"
  proof (intro ballI impI)
    fix kw assume k: "kw \<in> set (cocoa_keywords @ ratnagiri_mango_keywords)"
      and s: "sublist kw question"
    from s have "sublist (py_lower kw) (py_lower question)"
      unfolding py_lower_def by (rule sublist_map_mono)
    with low[OF k] show "sublist kw (py_lower question)" by simp
  qed
  have c: "any_in cocoa_keywords q \<longleftrightarrow>
             sublist ''cocoa'' q \<or> sublist ''chocolate tree'' q \<or> sublist ''theobroma cacao'' q"
    for q by (simp add: any_in_def cocoa_keywords_def)
  have m: "sublist ''ratnagiri'' q \<or> sublist ''mango'' q \<or> sublist ''mangoes'' q
             \<Longrightarrow> any_in ratnagiri_mango_keywords q"
    for q by (auto simp: any_in_def ratnagiri_mango_keywords_def)
  show ?thesis
    using raw m[of "py_lower question"] unfolding hardcoded_result c
    by (auto simp: cocoa_response_def ratnagiri_response_def)
qed

theorem hardcoded_triggers_are_substring_tests_witness:
  "sublist ''mango'' (py_lower ''When is the best SEASON to plant Mangosteen?'')
   \<and> query_knowledge_base (raising_capabilities [])
        ''When is the best SEASON to plant Mangosteen?'' 3 True 0 = (ratnagiri_response, 0)
   \<and> sublist ''chocolate tree'' (py_lower ''mango or Chocolate Tree'')
   \<and> query_knowledge_base (raising_capabilities []) ''mango or Chocolate Tree'' 3 True 0 =
        (cocoa_response, 0)"
proof -
  have a: "sublist ''mango'' (py_lower ''When is the best SEASON to plant Mangosteen?'')"
    by code_simp
  have b: "\<not> (sublist ''cocoa'' (py_lower ''When is the best SEASON to plant Mangosteen?'')
      \<or> sublist ''chocolate tree'' (py_lower ''When is the best SEASON to plant Mangosteen?'')
      \<or> sublist ''theobroma cacao'' (py_lower ''When is the best SEASON to plant Mangosteen?''))"
    by code_simp
  have c: "sublist ''chocolate tree'' (py_lower ''mango or Chocolate Tree'')"
    by code_simp
  show ?thesis
    using a b c
      hardcoded_triggers_are_substring_tests[of
        "''When is the best SEASON to plant Mangosteen?''" "raising_capabilities []" 3 True 0]
      hardcoded_triggers_are_substring_tests[of
        "''mango or Chocolate Tree''" "raising_capabilities []" 3 True 0]
    by blast
qed


end
